theory Spec2Isabelle
  imports Complex_Main "HOL-Library.Char_ord" "HOL-Library.List_Lexorder"
begin

section \<open>Lightcurve statistics and normalisation (lcanalyzer/models.py)\<close>

text \<open>
  The module is a handful of one-line functions over pandas objects.  The embedding
  has two layers: the pandas operations the module calls (indexing, the reductions
  \<open>min\<close>, \<open>max\<close>, \<open>mean\<close>, arithmetic with a scalar, \<open>fillna\<close>), and then the
  functions of \<open>models.py\<close>, written call by call as the source has them.

  Numbers.  A cell of a numeric column is a float64 value.  Finite values are modelled
  by exact reals, next to the three special values of IEEE arithmetic that the code
  can produce and that \<open>fillna\<close> is there to catch.  Rounding, the overflow of finite
  arithmetic to an infinity, the sign of zero and the wrap-around of int64 columns are
  not part of the model: arithmetic on finite values is exact, and what is proved
  below is proved of this exact arithmetic.  In particular the mean of a column is
  its exact mean; what the rounding of the running sum does to it is outside the
  model.

  \<open>load_dataset\<close> hands its argument to \<open>pd.read_csv\<close> and is not modelled.
\<close>

subsection \<open>Errors\<close>

text \<open>The two exceptions the module can raise; \<open>KeyError\<close> carries the missing key.\<close>

datatype error = TypeError | KeyError string

text \<open>Sequencing of calls that may raise: the first exception ends the computation.\<close>

definition and_then :: "error + 'a \<Rightarrow> ('a \<Rightarrow> error + 'b) \<Rightarrow> error + 'b" where
  "and_then m f = (case m of Inl e \<Rightarrow> Inl e | Inr x \<Rightarrow> f x)"

subsection \<open>float64 values\<close>

datatype float64 = Fin real | PosInf | NegInf | NaN

fun fadd :: "float64 \<Rightarrow> float64 \<Rightarrow> float64" where
  "fadd NaN y = NaN"
| "fadd x NaN = NaN"
| "fadd (Fin x) (Fin y) = Fin (x + y)"
| "fadd (Fin x) PosInf = PosInf"
| "fadd (Fin x) NegInf = NegInf"
| "fadd PosInf NegInf = NaN"
| "fadd PosInf y = PosInf"
| "fadd NegInf PosInf = NaN"
| "fadd NegInf y = NegInf"

fun fsub :: "float64 \<Rightarrow> float64 \<Rightarrow> float64" where
  "fsub NaN y = NaN"
| "fsub x NaN = NaN"
| "fsub (Fin x) (Fin y) = Fin (x - y)"
| "fsub (Fin x) PosInf = NegInf"
| "fsub (Fin x) NegInf = PosInf"
| "fsub PosInf PosInf = NaN"
| "fsub PosInf y = PosInf"
| "fsub NegInf NegInf = NaN"
| "fsub NegInf y = NegInf"

text \<open>
  True division.  A finite value divided by zero is an infinity of its sign, and
  \<open>0 / 0\<close> is NaN: numpy does not raise, and pandas silences the warning.
\<close>

fun fdiv :: "float64 \<Rightarrow> float64 \<Rightarrow> float64" where
  "fdiv NaN y = NaN"
| "fdiv x NaN = NaN"
| "fdiv (Fin x) (Fin y) =
     (if y = 0 then (if x = 0 then NaN else if 0 < x then PosInf else NegInf)
      else Fin (x / y))"
| "fdiv (Fin x) PosInf = Fin 0"
| "fdiv (Fin x) NegInf = Fin 0"
| "fdiv PosInf (Fin y) = (if y < 0 then NegInf else PosInf)"
| "fdiv NegInf (Fin y) = (if y < 0 then PosInf else NegInf)"
| "fdiv PosInf y = NaN"
| "fdiv NegInf y = NaN"

text \<open>The order of float64: every comparison with NaN is false.\<close>

fun fle :: "float64 \<Rightarrow> float64 \<Rightarrow> bool" where
  "fle NaN y = False"
| "fle x NaN = False"
| "fle NegInf y = True"
| "fle x PosInf = True"
| "fle (Fin x) (Fin y) = (x \<le> y)"
| "fle (Fin x) NegInf = False"
| "fle PosInf y = False"

definition fmax2 :: "float64 \<Rightarrow> float64 \<Rightarrow> float64" where
  "fmax2 a b = (if fle a b then b else a)"

definition fmin2 :: "float64 \<Rightarrow> float64 \<Rightarrow> float64" where
  "fmin2 a b = (if fle a b then a else b)"

text \<open>
  The reductions of a float64 column skip NaN (\<open>skipna=True\<close> is the default of
  \<open>Series.min\<close>, \<open>Series.max\<close> and \<open>Series.mean\<close>); a column with no value left,
  an empty one included, reduces to NaN.
\<close>

definition dropna :: "float64 list \<Rightarrow> float64 list" where
  "dropna xs = filter (\<lambda>x. x \<noteq> NaN) xs"

definition float_max :: "float64 list \<Rightarrow> float64" where
  "float_max xs = (case dropna xs of [] \<Rightarrow> NaN | v # vs \<Rightarrow> fold fmax2 vs v)"

definition float_min :: "float64 list \<Rightarrow> float64" where
  "float_min xs = (case dropna xs of [] \<Rightarrow> NaN | v # vs \<Rightarrow> fold fmin2 vs v)"

definition float_sum :: "float64 list \<Rightarrow> float64" where
  "float_sum xs = foldl fadd (Fin 0) xs"

definition float_mean :: "float64 list \<Rightarrow> float64" where
  "float_mean xs =
     (let vs = dropna xs
      in if vs = [] then NaN else fdiv (float_sum vs) (Fin (real (length vs))))"

subsection \<open>Scalars, columns, tables\<close>

text \<open>
  A column (a pandas Series) holds numbers or text, as the loader types it; a table
  (a DataFrame) is its columns in order, each under its label.  Labels are taken to
  be distinct; a lookup finds the first column of that label.  What a function of the
  module is handed as its table may also be a plain Python string, as in the test
  \<open>test_max_mag_strings\<close>.
\<close>

datatype scalar = SNum float64 | SStr string

datatype series = NumSeries "float64 list" | StrSeries "string list"

type_synonym dataframe = "(string \<times> series) list"

datatype pyobj = PyStr string | PyFrame dataframe

text \<open>
  \<open>data[mag_col]\<close>: a string indexed by a string raises TypeError (string indices
  must be integers); a table without that column raises KeyError.
\<close>

fun getitem :: "pyobj \<Rightarrow> string \<Rightarrow> error + series" where
  "getitem (PyStr s) key = Inl TypeError"
| "getitem (PyFrame df) key =
     (case map_of df key of None \<Rightarrow> Inl (KeyError key) | Some col \<Rightarrow> Inr col)"

text \<open>
  \<open>Series.max()\<close> and \<open>Series.min()\<close>.  On a text column they compare the strings
  (Python orders strings lexicographically by code point) and return the greatest or
  least one: no exception.  An empty column of either kind gives NaN.
\<close>

fun series_max :: "series \<Rightarrow> error + scalar" where
  "series_max (NumSeries xs) = Inr (SNum (float_max xs))"
| "series_max (StrSeries []) = Inr (SNum NaN)"
| "series_max (StrSeries (s # ss)) = Inr (SStr (fold max ss s))"

fun series_min :: "series \<Rightarrow> error + scalar" where
  "series_min (NumSeries xs) = Inr (SNum (float_min xs))"
| "series_min (StrSeries []) = Inr (SNum NaN)"
| "series_min (StrSeries (s # ss)) = Inr (SStr (fold min ss s))"

text \<open>
  \<open>Series.mean()\<close>.  On a text column the sum concatenates the strings and the
  conversion of that sum to a number is refused with TypeError (pandas 2).
\<close>

fun series_mean :: "series \<Rightarrow> error + scalar" where
  "series_mean (NumSeries xs) = Inr (SNum (float_mean xs))"
| "series_mean (StrSeries []) = Inr (SNum NaN)"
| "series_mean (StrSeries (s # ss)) = Inl TypeError"

subsection \<open>The column reducers\<close>

text \<open>\<open>return data[mag_col].mean()\<close>\<close>

definition mean_mag :: "pyobj \<Rightarrow> string \<Rightarrow> error + scalar" where
  "mean_mag data mag_col = and_then (getitem data mag_col) series_mean"

text \<open>\<open>return data[mag_col].max()\<close>\<close>

definition max_mag :: "pyobj \<Rightarrow> string \<Rightarrow> error + scalar" where
  "max_mag data mag_col = and_then (getitem data mag_col) series_max"

text \<open>\<open>return data[mag_col].min()\<close>\<close>

definition min_mag :: "pyobj \<Rightarrow> string \<Rightarrow> error + scalar" where
  "min_mag data mag_col = and_then (getitem data mag_col) series_min"

subsection \<open>Arithmetic of a column or a table with a scalar\<close>

text \<open>
  \<open>column - scalar\<close> and \<open>column / scalar\<close> work row by row.  A text cell has no
  subtraction and no division: the first one met raises TypeError (a column with no
  row meets none).  A number column and a string scalar do not combine at all.
\<close>

fun series_sub :: "series \<Rightarrow> scalar \<Rightarrow> error + series" where
  "series_sub (NumSeries xs) (SNum m) = Inr (NumSeries (map (\<lambda>x. fsub x m) xs))"
| "series_sub (NumSeries xs) (SStr s) = Inl TypeError"
| "series_sub (StrSeries []) m = Inr (StrSeries [])"
| "series_sub (StrSeries (x # xs)) m = Inl TypeError"

fun series_div :: "series \<Rightarrow> scalar \<Rightarrow> error + series" where
  "series_div (NumSeries xs) (SNum m) = Inr (NumSeries (map (\<lambda>x. fdiv x m) xs))"
| "series_div (NumSeries xs) (SStr s) = Inl TypeError"
| "series_div (StrSeries []) m = Inr (StrSeries [])"
| "series_div (StrSeries (x # xs)) m = Inl TypeError"

text \<open>
  \<open>table - scalar\<close> subtracts the scalar from every column of the table, whatever
  the column is for, and builds a new table of the same labels.
\<close>

fun frame_sub :: "dataframe \<Rightarrow> scalar \<Rightarrow> error + dataframe" where
  "frame_sub [] m = Inr []"
| "frame_sub ((label, col) # rest) m =
     and_then (series_sub col m) (\<lambda>col'.
     and_then (frame_sub rest m) (\<lambda>rest'.
       Inr ((label, col') # rest')))"

fun pyobj_sub :: "pyobj \<Rightarrow> scalar \<Rightarrow> error + pyobj" where
  "pyobj_sub (PyStr s) m = Inl TypeError"
| "pyobj_sub (PyFrame df) m = and_then (frame_sub df m) (\<lambda>df'. Inr (PyFrame df'))"

text \<open>\<open>Series.fillna(v)\<close>: every NaN of a number column becomes \<open>v\<close>.\<close>

fun fillna :: "series \<Rightarrow> float64 \<Rightarrow> series" where
  "fillna (NumSeries xs) v = NumSeries (map (\<lambda>x. if x = NaN then v else x) xs)"
| "fillna (StrSeries xs) v = StrSeries xs"

subsection \<open>The normaliser\<close>

text \<open>
  \<^verbatim>\<open>
  min = min_mag(df,mag_col)
  max = max_mag((df-min),mag_col)
  lc = (df[mag_col]-min)/max
  lc = lc.fillna(0)
  return lc
  \<close>
\<close>

definition normalize_lc :: "pyobj \<Rightarrow> string \<Rightarrow> error + series" where
  "normalize_lc df mag_col =
     and_then (min_mag df mag_col) (\<lambda>mn.
     and_then (pyobj_sub df mn) (\<lambda>shifted.
     and_then (max_mag shifted mag_col) (\<lambda>mx.
     and_then (getitem df mag_col) (\<lambda>col.
     and_then (series_sub col mn) (\<lambda>num.
     and_then (series_div num mx) (\<lambda>lc.
       Inr (fillna lc (Fin 0))))))))"

subsection \<open>The per-band aggregator\<close>

text \<open>
  \<open>lc\<close> is a dictionary from band name to table; \<open>lc[b]\<close> raises KeyError for a band
  that is not a key.  The body of the loop builds the dictionary \<open>stat\<close> of one band,
  in the order max, mean, min; the loop stores it under the band name, a later entry
  for the same name replacing the earlier one.
\<close>

type_synonym stat_dict = "string \<rightharpoonup> scalar"

type_synonym stats_dict = "string \<rightharpoonup> stat_dict"

definition dict_getitem :: "(string \<rightharpoonup> pyobj) \<Rightarrow> string \<Rightarrow> error + pyobj" where
  "dict_getitem lc b = (case lc b of None \<Rightarrow> Inl (KeyError b) | Some v \<Rightarrow> Inr v)"

definition band_stat :: "(string \<rightharpoonup> pyobj) \<Rightarrow> string \<Rightarrow> string \<Rightarrow> error + stat_dict" where
  "band_stat lc b mag_col =
     and_then (and_then (dict_getitem lc b) (\<lambda>sub. max_mag sub mag_col)) (\<lambda>mx.
     and_then (and_then (dict_getitem lc b) (\<lambda>sub. mean_mag sub mag_col)) (\<lambda>me.
     and_then (and_then (dict_getitem lc b) (\<lambda>sub. min_mag sub mag_col)) (\<lambda>mn.
       Inr (Map.empty(''max'' \<mapsto> mx, ''mean'' \<mapsto> me, ''min'' \<mapsto> mn)))))"

fun calc_stats_loop ::
  "(string \<rightharpoonup> pyobj) \<Rightarrow> string list \<Rightarrow> string \<Rightarrow> stats_dict \<Rightarrow> error + stats_dict" where
  "calc_stats_loop lc [] mag_col stats = Inr stats"
| "calc_stats_loop lc (b # bands) mag_col stats =
     (case band_stat lc b mag_col of
        Inl e \<Rightarrow> Inl e
      | Inr stat \<Rightarrow> calc_stats_loop lc bands mag_col (stats(b \<mapsto> stat)))"

text \<open>
  \<open>pd.DataFrame.from_records(stats)\<close> turns the dictionary of dictionaries into a
  table with one column per band and the rows \<open>max\<close>, \<open>mean\<close>, \<open>min\<close>.  The table
  is represented by its cells, addressed by column label and row label.
\<close>

definition from_records :: "stats_dict \<Rightarrow> stats_dict" where
  "from_records stats = stats"

definition calc_stats :: "(string \<rightharpoonup> pyobj) \<Rightarrow> string list \<Rightarrow> string \<Rightarrow> error + stats_dict" where
  "calc_stats lc bands mag_col =
     and_then (calc_stats_loop lc bands mag_col Map.empty) (\<lambda>stats.
       Inr (from_records stats))"

subsection \<open>The specification's description of the normaliser\<close>

text \<open>A table holds text when one of its columns has a text cell.\<close>

fun text_cells :: "series \<Rightarrow> bool" where
  "text_cells (NumSeries xs) = False"
| "text_cells (StrSeries []) = False"
| "text_cells (StrSeries (s # ss)) = True"

definition holds_text :: "dataframe \<Rightarrow> bool" where
  "holds_text df = list_ex (\<lambda>(label, col). text_cells col) df"

text \<open>
  Section 4.4 of the specification, in its own words, for a magnitude column of the
  finite numbers \<open>xs\<close> in the table \<open>df\<close>: (1) \<open>minVal\<close> is the minimum of the column;
  (2) the whole table is shifted by \<open>minVal\<close>, which text does not admit; (3) \<open>maxVal\<close>
  is the maximum of the magnitude column of the shifted table; (4) the result is
  \<open>(x - minVal) / maxVal\<close> row by row, and 0.0 in every row when \<open>maxVal\<close> is 0.
\<close>

definition two_step_spec :: "dataframe \<Rightarrow> real list \<Rightarrow> error + real list" where
  "two_step_spec df xs =
     (let minVal = Min (set xs);
          shifted = map (\<lambda>x. x - minVal) xs;
          maxVal = Max (set shifted)
      in if holds_text df then Inl TypeError
         else Inr (map (\<lambda>x. if maxVal = 0 then 0 else (x - minVal) / maxVal) xs))"

text \<open>
  The two denominators the specification compares, as pandas expressions on a column:
  \<open>max(column - min)\<close>, which the code computes, and \<open>max(column) - min\<close>.
\<close>

fun scalar_sub :: "scalar \<Rightarrow> scalar \<Rightarrow> error + scalar" where
  "scalar_sub (SNum a) (SNum b) = Inr (SNum (fsub a b))"
| "scalar_sub a b = Inl TypeError"

definition max_of_shifted :: "series \<Rightarrow> error + scalar" where
  "max_of_shifted col =
     and_then (series_min col) (\<lambda>mn.
     and_then (series_sub col mn) (\<lambda>shifted.
       series_max shifted))"

definition max_minus_min :: "series \<Rightarrow> error + scalar" where
  "max_minus_min col =
     and_then (series_min col) (\<lambda>mn.
     and_then (series_max col) (\<lambda>mx.
       scalar_sub mx mn))"

text \<open>
  The single-pass variant \<open>(col - min) / (max - min)\<close> that the specification sets
  against the code: the same lines with the denominator taken from the table as it
  is, and the same \<open>fillna(0)\<close> at the end.
\<close>

definition single_pass_lc :: "pyobj \<Rightarrow> string \<Rightarrow> error + series" where
  "single_pass_lc df mag_col =
     and_then (min_mag df mag_col) (\<lambda>mn.
     and_then (max_mag df mag_col) (\<lambda>mx.
     and_then (scalar_sub mx mn) (\<lambda>range.
     and_then (getitem df mag_col) (\<lambda>col.
     and_then (series_sub col mn) (\<lambda>num.
     and_then (series_div num range) (\<lambda>lc.
       Inr (fillna lc (Fin 0))))))))"

text \<open>
  The row of the normalised lightcurve that the specification expects for a cell,
  given the least and the greatest number of the column: a number \<open>r\<close> becomes
  \<open>(r - lo) / (hi - lo)\<close>, a missing value becomes 0.
\<close>

fun unit_value :: "real \<Rightarrow> real \<Rightarrow> float64 \<Rightarrow> real" where
  "unit_value lo hi (Fin r) = (r - lo) / (hi - lo)"
| "unit_value lo hi x = 0"

text \<open>
  The comparison \<open>a <= b\<close> of two results of the reducers, as Python evaluates it:
  numbers by the order of float64 (false as soon as one of them is NaN), strings
  lexicographically; a number and a string do not compare.
\<close>

fun scalar_le :: "scalar \<Rightarrow> scalar \<Rightarrow> bool" where
  "scalar_le (SNum a) (SNum b) = fle a b"
| "scalar_le (SStr s) (SStr t) = (s \<le> t)"
| "scalar_le a b = False"

subsection \<open>The module on a store of objects\<close>

text \<open>
  Python hands objects over by reference, and a pandas table can be changed in place.
  To say that the module changes none of its arguments, the same functions are
  written once more over a store: tables and columns live in the store under
  references (their positions), an operation reads its operands there and puts what
  it builds at a fresh reference.  Every pandas call of the module is of that kind:
  indexing, the reductions, \<open>-\<close>, \<open>/\<close> and \<open>fillna\<close> (without \<open>inplace\<close>) each return
  a new object.
\<close>

record store =
  tables :: "pyobj list"
  columns :: "series list"

type_synonym 'a action = "store \<Rightarrow> (error + 'a) \<times> store"

definition st_then :: "'a action \<Rightarrow> ('a \<Rightarrow> 'b action) \<Rightarrow> 'b action" where
  "st_then m f s = (case m s of (Inl e, s') \<Rightarrow> (Inl e, s') | (Inr x, s') \<Rightarrow> f x s')"

definition new_column :: "series \<Rightarrow> nat action" where
  "new_column col s = (Inr (length (columns s)), s\<lparr>columns := columns s @ [col]\<rparr>)"

definition new_table :: "pyobj \<Rightarrow> nat action" where
  "new_table obj s = (Inr (length (tables s)), s\<lparr>tables := tables s @ [obj]\<rparr>)"

definition table_getitem :: "nat \<Rightarrow> string \<Rightarrow> nat action" where
  "table_getitem data key s =
     (case getitem (tables s ! data) key of Inl e \<Rightarrow> (Inl e, s) | Inr col \<Rightarrow> new_column col s)"

definition column_max :: "nat \<Rightarrow> scalar action" where
  "column_max col s = (series_max (columns s ! col), s)"

definition column_min :: "nat \<Rightarrow> scalar action" where
  "column_min col s = (series_min (columns s ! col), s)"

definition column_mean :: "nat \<Rightarrow> scalar action" where
  "column_mean col s = (series_mean (columns s ! col), s)"

definition table_sub :: "nat \<Rightarrow> scalar \<Rightarrow> nat action" where
  "table_sub df m s =
     (case pyobj_sub (tables s ! df) m of Inl e \<Rightarrow> (Inl e, s) | Inr obj \<Rightarrow> new_table obj s)"

definition column_sub :: "nat \<Rightarrow> scalar \<Rightarrow> nat action" where
  "column_sub col m s =
     (case series_sub (columns s ! col) m of Inl e \<Rightarrow> (Inl e, s) | Inr r \<Rightarrow> new_column r s)"

definition column_div :: "nat \<Rightarrow> scalar \<Rightarrow> nat action" where
  "column_div col m s =
     (case series_div (columns s ! col) m of Inl e \<Rightarrow> (Inl e, s) | Inr r \<Rightarrow> new_column r s)"

definition column_fillna :: "nat \<Rightarrow> float64 \<Rightarrow> nat action" where
  "column_fillna col v s = new_column (fillna (columns s ! col) v) s"

definition mean_mag_st :: "nat \<Rightarrow> string \<Rightarrow> scalar action" where
  "mean_mag_st data mag_col = st_then (table_getitem data mag_col) column_mean"

definition max_mag_st :: "nat \<Rightarrow> string \<Rightarrow> scalar action" where
  "max_mag_st data mag_col = st_then (table_getitem data mag_col) column_max"

definition min_mag_st :: "nat \<Rightarrow> string \<Rightarrow> scalar action" where
  "min_mag_st data mag_col = st_then (table_getitem data mag_col) column_min"

definition normalize_lc_st :: "nat \<Rightarrow> string \<Rightarrow> nat action" where
  "normalize_lc_st df mag_col =
     st_then (min_mag_st df mag_col) (\<lambda>mn.
     st_then (table_sub df mn) (\<lambda>shifted.
     st_then (max_mag_st shifted mag_col) (\<lambda>mx.
     st_then (table_getitem df mag_col) (\<lambda>col.
     st_then (column_sub col mn) (\<lambda>num.
     st_then (column_div num mx) (\<lambda>lc.
       column_fillna lc (Fin 0)))))))"

text \<open>
  \<open>extends s s'\<close>: every object of \<open>s\<close> is in \<open>s'\<close>, under its reference and as it
  was.  The column a call returns is read off the store it leaves.
\<close>

definition extends :: "store \<Rightarrow> store \<Rightarrow> bool" where
  "extends s s' \<longleftrightarrow>
     take (length (tables s)) (tables s') = tables s
   \<and> take (length (columns s)) (columns s') = columns s"

definition allocates_only :: "'a action \<Rightarrow> bool" where
  "allocates_only m \<longleftrightarrow> (\<forall>s. extends s (snd (m s)))"

definition result_column :: "(error + nat) \<times> store \<Rightarrow> error + series" where
  "result_column res =
     (case res of (Inl e, s') \<Rightarrow> Inl e | (Inr r, s') \<Rightarrow> Inr (columns s' ! r))"

subsection \<open>The tables of the test suite\<close>

text \<open>
  The frames of \<open>tests/test_models.py\<close>, column by column, and a lightcurve of four
  observations for the examples below.
\<close>

definition mixed_table :: dataframe where
  "mixed_table =
     [(''a'', NumSeries [Fin 1, Fin 7, Fin 3]),
      (''b'', NumSeries [Fin 5, Fin 8, Fin 4]),
      (''c'', NumSeries [Fin 3, Fin 9, Fin 1])]"

definition zeros_table :: dataframe where
  "zeros_table =
     [(''a'', NumSeries [Fin 0, Fin 0, Fin 0]),
      (''b'', NumSeries [Fin 0, Fin 0, Fin 0]),
      (''c'', NumSeries [Fin 0, Fin 0, Fin 0])]"

definition negatives_table :: dataframe where
  "negatives_table =
     [(''a'', NumSeries [Fin (- 7), Fin (- 4), Fin (- 1)]),
      (''b'', NumSeries [Fin (- 7), Fin (- 3), Fin (- 5)]),
      (''c'', NumSeries [Fin (- 3), Fin (- 1), Fin (- 3)])]"

definition lightcurve_table :: dataframe where
  "lightcurve_table =
     [(''a'', NumSeries [Fin 8, Fin 1, Fin 1, Fin 1]),
      (''b'', NumSeries [Fin 9, Fin 4, Fin 2, Fin 4]),
      (''c'', NumSeries [Fin 1, Fin 1, Fin 4, Fin 1])]"

text \<open>
  A lightcurve with a gap: the magnitude of the second observation is missing (an
  empty field of the file is read as NaN).
\<close>

definition gapped_table :: dataframe where
  "gapped_table =
     [(''time'', NumSeries [Fin 0, Fin 1, Fin 2, Fin 3]),
      (''mag'', NumSeries [Fin 1, NaN, Fin 7, Fin 3])]"

section \<open>Properties\<close>

subsection \<open>Sequencing\<close>

lemma and_then_Inr [simp]: "and_then (Inr x) f = f x"
  by (simp add: and_then_def)

lemma and_then_Inl [simp]: "and_then (Inl e) f = Inl e"
  by (simp add: and_then_def)

lemma and_then_eq_Inr:
  "and_then m f = Inr y \<longleftrightarrow> (\<exists>x. m = Inr x \<and> f x = Inr y)"
  by (cases m) simp_all

subsection \<open>Reductions of a column of finite numbers\<close>

lemma dropna_Nil [simp]: "dropna [] = []"
  by (simp add: dropna_def)

lemma dropna_Cons [simp]: "dropna (x # xs) = (if x = NaN then dropna xs else x # dropna xs)"
  by (simp add: dropna_def)

lemma dropna_Fin [simp]: "dropna (map Fin xs) = map Fin xs"
  by (induction xs) simp_all

lemma fold_fmax2_Fin: "fold fmax2 (map Fin ys) (Fin y) = Fin (fold max ys y)"
  by (induction ys arbitrary: y) (simp_all add: fmax2_def max_def)

lemma fold_fmin2_Fin: "fold fmin2 (map Fin ys) (Fin y) = Fin (fold min ys y)"
  by (induction ys arbitrary: y) (simp_all add: fmin2_def min_def)

lemma float_max_Fin: "xs \<noteq> [] \<Longrightarrow> float_max (map Fin xs) = Fin (Max (set xs))"
proof (cases xs)
  case Nil
  assume "xs \<noteq> []"
  with Nil show ?thesis by simp
next
  case (Cons a list)
  have "float_max (map Fin xs) = fold fmax2 (map Fin list) (Fin a)"
    by (simp add: float_max_def Cons)
  also have "\<dots> = Fin (fold max list a)"
    by (rule fold_fmax2_Fin)
  also have "fold max list a = Max (set xs)"
    by (simp only: Cons Max.set_eq_fold)
  finally show ?thesis .
qed

lemma float_min_Fin: "xs \<noteq> [] \<Longrightarrow> float_min (map Fin xs) = Fin (Min (set xs))"
proof (cases xs)
  case Nil
  assume "xs \<noteq> []"
  with Nil show ?thesis by simp
next
  case (Cons a list)
  have "float_min (map Fin xs) = fold fmin2 (map Fin list) (Fin a)"
    by (simp add: float_min_def Cons)
  also have "\<dots> = Fin (fold min list a)"
    by (rule fold_fmin2_Fin)
  also have "fold min list a = Min (set xs)"
    by (simp only: Cons Min.set_eq_fold)
  finally show ?thesis .
qed

lemma float_max_Nil [simp]: "float_max [] = NaN"
  by (simp add: float_max_def)

lemma float_min_Nil [simp]: "float_min [] = NaN"
  by (simp add: float_min_def)

lemma Max_shift:
  fixes xs :: "real list"
  assumes "xs \<noteq> []"
  shows "Max ((\<lambda>x. x - m) ` set xs) = Max (set xs) - m"
proof -
  have "mono (\<lambda>x::real. x - m)" by (simp add: mono_def)
  from mono_Max_commute [OF this, of "set xs"] assms show ?thesis by simp
qed

lemma float_sum_Fin: "foldl fadd (Fin a) (map Fin fs) = Fin (a + sum_list fs)"
  by (induction fs arbitrary: a) (simp_all add: add.assoc)

lemma float_mean_Fin:
  "fs \<noteq> [] \<Longrightarrow> float_mean (map Fin fs) = Fin (sum_list fs / real (length fs))"
  by (simp add: float_mean_def float_sum_def float_sum_Fin)

lemma sum_list_lower:
  fixes fs :: "real list"
  shows "\<forall>x\<in>set fs. lo \<le> x \<Longrightarrow> lo * real (length fs) \<le> sum_list fs"
  by (induction fs) (auto simp: algebra_simps)

lemma sum_list_upper:
  fixes fs :: "real list"
  shows "\<forall>x\<in>set fs. x \<le> hi \<Longrightarrow> sum_list fs \<le> hi * real (length fs)"
  by (induction fs) (auto simp: algebra_simps)

lemma mean_between:
  fixes fs :: "real list"
  assumes "fs \<noteq> []"
  shows "Min (set fs) \<le> sum_list fs / real (length fs)"
    and "sum_list fs / real (length fs) \<le> Max (set fs)"
proof -
  from assms have pos: "0 < real (length fs)" by simp
  have "Min (set fs) * real (length fs) \<le> sum_list fs"
    by (rule sum_list_lower) simp
  with pos show "Min (set fs) \<le> sum_list fs / real (length fs)"
    by (simp add: pos_le_divide_eq)
  have "sum_list fs \<le> Max (set fs) * real (length fs)"
    by (rule sum_list_upper) simp
  with pos show "sum_list fs / real (length fs) \<le> Max (set fs)"
    by (simp add: pos_divide_le_eq)
qed

text \<open>The reductions see the values that are present, and nothing else.\<close>

lemma float_min_dropna: "float_min (dropna xs) = float_min xs"
  by (simp add: float_min_def dropna_def)

lemma float_max_dropna: "float_max (dropna xs) = float_max xs"
  by (simp add: float_max_def dropna_def)

lemma float_mean_dropna: "float_mean (dropna xs) = float_mean xs"
  by (simp add: float_mean_def dropna_def)

subsection \<open>Reductions of a constant column\<close>

lemma fmin2_iterate: "(fmin2 v ^^ k) v = v"
  by (induction k) (simp_all add: fmin2_def)

lemma fmax2_iterate: "(fmax2 v ^^ k) v = v"
  by (induction k) (simp_all add: fmax2_def)

lemma dropna_replicate: "dropna (replicate n v) = (if v = NaN then [] else replicate n v)"
  by (induction n) auto

lemma float_min_replicate: "0 < n \<Longrightarrow> float_min (replicate n v) = v"
  by (cases n) (simp_all add: float_min_def dropna_replicate fmin2_iterate)

lemma float_max_replicate: "0 < n \<Longrightarrow> float_max (replicate n v) = v"
  by (cases n) (simp_all add: float_max_def dropna_replicate fmax2_iterate)

lemma fdiv_self_difference: "fdiv (fsub v v) (fsub v v) = NaN"
  by (cases v) simp_all

subsection \<open>The order of float64 and the reductions of any column\<close>

lemma fle_refl: "x \<noteq> NaN \<Longrightarrow> fle x x"
  by (cases x) simp_all

lemma fle_trans: "fle x y \<Longrightarrow> fle y z \<Longrightarrow> fle x z"
  by (cases x; cases y; cases z) simp_all

lemma fle_antisym: "fle x y \<Longrightarrow> fle y x \<Longrightarrow> x = y"
  by (cases x; cases y) simp_all

lemma fle_total: "x \<noteq> NaN \<Longrightarrow> y \<noteq> NaN \<Longrightarrow> fle x y \<or> fle y x"
  by (cases x; cases y) auto

lemma fle_not_NaN: "fle x y \<Longrightarrow> x \<noteq> NaN \<and> y \<noteq> NaN"
  by (cases x; cases y) simp_all

lemma set_dropna: "set (dropna xs) = set xs - {NaN}"
  by (auto simp: dropna_def)

text \<open>The fold leaves the greatest (least) of the values it has seen.\<close>

lemma fold_fmax2_greatest:
  "NaN \<notin> set vs \<Longrightarrow> v \<noteq> NaN \<Longrightarrow>
   fold fmax2 vs v \<in> set (v # vs) \<and> (\<forall>x\<in>set (v # vs). fle x (fold fmax2 vs v))"
proof (induction vs arbitrary: v)
  case Nil
  then show ?case by (simp add: fle_refl)
next
  case (Cons w vs)
  from Cons.prems have w: "w \<noteq> NaN" and vs: "NaN \<notin> set vs" by auto
  have next_ok: "fmax2 w v \<noteq> NaN" using w Cons.prems(2) by (simp add: fmax2_def)
  from Cons.IH [OF vs next_ok]
  have mem: "fold fmax2 vs (fmax2 w v) \<in> set (fmax2 w v # vs)"
    and top: "\<forall>x\<in>set (fmax2 w v # vs). fle x (fold fmax2 vs (fmax2 w v))"
    by blast+
  have "fle v (fmax2 w v)" "fle w (fmax2 w v)"
    using fle_total [OF Cons.prems(2) w] fle_refl [OF w] fle_refl [OF Cons.prems(2)]
    by (auto simp: fmax2_def)
  with top have "fle v (fold fmax2 vs (fmax2 w v))" "fle w (fold fmax2 vs (fmax2 w v))"
    by (auto intro: fle_trans)
  moreover from mem have "fold fmax2 vs (fmax2 w v) \<in> set (v # w # vs)"
    by (auto simp: fmax2_def split: if_splits)
  ultimately show ?case using top by simp
qed

lemma fold_fmin2_least:
  "NaN \<notin> set vs \<Longrightarrow> v \<noteq> NaN \<Longrightarrow>
   fold fmin2 vs v \<in> set (v # vs) \<and> (\<forall>x\<in>set (v # vs). fle (fold fmin2 vs v) x)"
proof (induction vs arbitrary: v)
  case Nil
  then show ?case by (simp add: fle_refl)
next
  case (Cons w vs)
  from Cons.prems have w: "w \<noteq> NaN" and vs: "NaN \<notin> set vs" by auto
  have next_ok: "fmin2 w v \<noteq> NaN" using w Cons.prems(2) by (simp add: fmin2_def)
  from Cons.IH [OF vs next_ok]
  have mem: "fold fmin2 vs (fmin2 w v) \<in> set (fmin2 w v # vs)"
    and bot: "\<forall>x\<in>set (fmin2 w v # vs). fle (fold fmin2 vs (fmin2 w v)) x"
    by blast+
  have "fle (fmin2 w v) v" "fle (fmin2 w v) w"
    using fle_total [OF Cons.prems(2) w] fle_refl [OF w] fle_refl [OF Cons.prems(2)]
    by (auto simp: fmin2_def)
  with bot have "fle (fold fmin2 vs (fmin2 w v)) v" "fle (fold fmin2 vs (fmin2 w v)) w"
    by (auto intro: fle_trans)
  moreover from mem have "fold fmin2 vs (fmin2 w v) \<in> set (v # w # vs)"
    by (auto simp: fmin2_def split: if_splits)
  ultimately show ?case using bot by simp
qed

lemma float_max_all_NaN: "set xs \<subseteq> {NaN} \<Longrightarrow> float_max xs = NaN"
proof -
  assume "set xs \<subseteq> {NaN}"
  then have "set (dropna xs) = {}" by (auto simp: set_dropna)
  then show ?thesis by (simp add: float_max_def)
qed

lemma float_min_all_NaN: "set xs \<subseteq> {NaN} \<Longrightarrow> float_min xs = NaN"
proof -
  assume "set xs \<subseteq> {NaN}"
  then have "set (dropna xs) = {}" by (auto simp: set_dropna)
  then show ?thesis by (simp add: float_min_def)
qed

lemma float_max_greatest:
  assumes "\<not> set xs \<subseteq> {NaN}"
  shows "float_max xs \<in> set xs \<and> float_max xs \<noteq> NaN
       \<and> (\<forall>x\<in>set xs. x \<noteq> NaN \<longrightarrow> fle x (float_max xs))"
proof -
  from assms have "set (dropna xs) \<noteq> {}" by (auto simp: set_dropna)
  then obtain v vs where vs: "dropna xs = v # vs" by (cases "dropna xs") auto
  then have "set (v # vs) = set xs - {NaN}" by (simp add: set_dropna [symmetric])
  then have v: "v \<noteq> NaN" and rest: "NaN \<notin> set vs" and all: "set (v # vs) = set xs - {NaN}"
    by auto
  from fold_fmax2_greatest [OF rest v] vs all show ?thesis
    by (auto simp: float_max_def)
qed

lemma float_min_least:
  assumes "\<not> set xs \<subseteq> {NaN}"
  shows "float_min xs \<in> set xs \<and> float_min xs \<noteq> NaN
       \<and> (\<forall>x\<in>set xs. x \<noteq> NaN \<longrightarrow> fle (float_min xs) x)"
proof -
  from assms have "set (dropna xs) \<noteq> {}" by (auto simp: set_dropna)
  then obtain v vs where vs: "dropna xs = v # vs" by (cases "dropna xs") auto
  then have "set (v # vs) = set xs - {NaN}" by (simp add: set_dropna [symmetric])
  then have v: "v \<noteq> NaN" and rest: "NaN \<notin> set vs" and all: "set (v # vs) = set xs - {NaN}"
    by auto
  from fold_fmin2_least [OF rest v] vs all show ?thesis
    by (auto simp: float_min_def)
qed

lemma float_max_eqI:
  assumes "M \<in> set xs" and "M \<noteq> NaN" and "\<forall>x\<in>set xs. x \<noteq> NaN \<longrightarrow> fle x M"
  shows "float_max xs = M"
proof -
  from assms(1,2) have "\<not> set xs \<subseteq> {NaN}" by auto
  from float_max_greatest [OF this] assms show ?thesis
    by (blast intro: fle_antisym)
qed

text \<open>
  Subtracting one and the same value keeps the order, wherever the differences are
  defined; the only undefined ones are infinity minus itself.
\<close>

lemma fsub_NaN_right [simp]: "fsub x NaN = NaN"
  by (cases x) simp_all

lemma fsub_mono:
  "fle x y \<Longrightarrow> fsub x m \<noteq> NaN \<Longrightarrow> fsub y m \<noteq> NaN \<Longrightarrow> fle (fsub x m) (fsub y m)"
  by (cases x; cases y; cases m) simp_all

lemma fsub_NaN_upper:
  "fle x y \<Longrightarrow> fle m x \<Longrightarrow> fsub y m = NaN \<Longrightarrow> fsub x m = NaN"
  by (cases x; cases y; cases m) simp_all

text \<open>The maximum of a column shifted by its minimum: any column, any cells.\<close>

lemma float_max_shifted:
  "float_max (map (\<lambda>x. fsub x (float_min xs)) xs) = fsub (float_max xs) (float_min xs)"
proof (cases "set xs \<subseteq> {NaN}")
  case True
  then have "float_min xs = NaN" by (rule float_min_all_NaN)
  moreover have "set (map (\<lambda>x. NaN) xs) \<subseteq> {NaN}" by auto
  ultimately show ?thesis by (simp add: float_max_all_NaN del: set_map)
next
  case False
  let ?m = "float_min xs" and ?M = "float_max xs"
  from float_min_least [OF False] have m_in: "?m \<in> set xs" and m: "?m \<noteq> NaN"
    and lower: "\<forall>x\<in>set xs. x \<noteq> NaN \<longrightarrow> fle ?m x"
    by blast+
  from float_max_greatest [OF False] have M_in: "?M \<in> set xs" and M: "?M \<noteq> NaN"
    and upper: "\<forall>x\<in>set xs. x \<noteq> NaN \<longrightarrow> fle x ?M"
    by blast+
  show ?thesis
  proof (cases "fsub ?M ?m = NaN")
    case True
    have "fsub x ?m = NaN" if "x \<in> set xs" for x
    proof (cases "x = NaN")
      case True
      then show ?thesis by simp
    next
      case False
      with that upper lower have "fle x ?M" "fle ?m x" by blast+
      from fsub_NaN_upper [OF this True] show ?thesis .
    qed
    then have "set (map (\<lambda>x. fsub x ?m) xs) \<subseteq> {NaN}" by auto
    from float_max_all_NaN [OF this] True show ?thesis by simp
  next
    case defined: False
    show ?thesis
    proof (rule float_max_eqI)
      show "fsub ?M ?m \<in> set (map (\<lambda>x. fsub x ?m) xs)" using M_in by auto
      show "fsub ?M ?m \<noteq> NaN" by (rule defined)
      show "\<forall>y\<in>set (map (\<lambda>x. fsub x ?m) xs). y \<noteq> NaN \<longrightarrow> fle y (fsub ?M ?m)"
      proof (intro ballI impI)
        fix y assume "y \<in> set (map (\<lambda>x. fsub x ?m) xs)" and y: "y \<noteq> NaN"
        then obtain x where x: "x \<in> set xs" and yx: "y = fsub x ?m" by auto
        from y yx have "x \<noteq> NaN" by auto
        with x upper have "fle x ?M" by blast
        from fsub_mono [OF this] y yx defined show "fle y (fsub ?M ?m)" by simp
      qed
    qed
  qed
qed

subsection \<open>The test suite\<close>

text \<open>
  \<open>test_max_mag\<close>, \<open>test_mean_mag\<close> (the mean of 1, 7, 3 is 11/3, within one percent
  of 3.66), \<open>test_min_mag\<close> and \<open>test_max_mag_strings\<close>, run on the model.
\<close>

lemma test_max_mag:
  "max_mag (PyFrame mixed_table) ''a'' = Inr (SNum (Fin 7))"
  "max_mag (PyFrame zeros_table) ''b'' = Inr (SNum (Fin 0))"
  by (simp_all add: max_mag_def mixed_table_def zeros_table_def float_max_def fmax2_def)

lemma test_mean_mag:
  "mean_mag (PyFrame mixed_table) ''a'' = Inr (SNum (Fin (11 / 3)))"
  "\<bar>11 / 3 - 3.66\<bar> \<le> (0.01 * 3.66 :: real)"
  "mean_mag (PyFrame zeros_table) ''b'' = Inr (SNum (Fin 0))"
  by (simp_all add: mean_mag_def mixed_table_def zeros_table_def float_mean_def float_sum_def)

lemma test_min_mag:
  "min_mag (PyFrame mixed_table) ''a'' = Inr (SNum (Fin 1))"
  "min_mag (PyFrame zeros_table) ''b'' = Inr (SNum (Fin 0))"
  "min_mag (PyFrame negatives_table) ''b'' = Inr (SNum (Fin (- 7)))"
  by (simp_all add: min_mag_def mixed_table_def zeros_table_def negatives_table_def
        float_min_def fmin2_def)

lemma test_max_mag_strings: "max_mag (PyStr ''string'') ''b'' = Inl TypeError"
  by (simp add: max_mag_def)

subsection \<open>Subtracting a scalar from a table\<close>

text \<open>Where the subtraction goes through, each column of the new table is the old one shifted.\<close>

lemma frame_sub_lookup:
  "frame_sub df m = Inr df' \<Longrightarrow> map_of df c = Some col \<Longrightarrow>
   \<exists>col'. series_sub col m = Inr col' \<and> map_of df' c = Some col'"
proof (induction df arbitrary: df')
  case Nil
  then show ?case by simp
next
  case (Cons p df)
  obtain l0 c0 where p: "p = (l0, c0)" by (cases p)
  from Cons.prems(1) obtain c0' rest' where
    c0: "series_sub c0 m = Inr c0'" and rest: "frame_sub df m = Inr rest'"
    and df': "df' = (l0, c0') # rest'"
    by (auto simp: p and_then_eq_Inr)
  show ?case
  proof (cases "c = l0")
    case True
    with Cons.prems(2) p c0 df' show ?thesis by simp
  next
    case False
    with Cons.prems(2) p have "map_of df c = Some col" by simp
    from Cons.IH [OF rest this] False df' show ?thesis by simp
  qed
qed

text \<open>It goes through exactly when the table holds no text.\<close>

lemma frame_sub_no_text:
  "\<not> holds_text df \<Longrightarrow> \<exists>df'. frame_sub df (SNum m) = Inr df'"
proof (induction df)
  case Nil
  then show ?case by simp
next
  case (Cons p df)
  obtain l0 c0 where p: "p = (l0, c0)" by (cases p)
  from Cons.prems p have "\<not> text_cells c0" and rest: "\<not> holds_text df"
    by (simp_all add: holds_text_def)
  then obtain c0' where c0: "series_sub c0 (SNum m) = Inr c0'"
    by (cases c0 rule: text_cells.cases) simp_all
  from Cons.IH [OF rest] obtain rest' where "frame_sub df (SNum m) = Inr rest'" ..
  with p c0 show ?case by simp
qed

lemma series_sub_error: "series_sub col m = Inl e \<Longrightarrow> e = TypeError"
  by (cases "(col, m)" rule: series_sub.cases) simp_all

lemma frame_sub_text:
  "holds_text df \<Longrightarrow> frame_sub df m = Inl TypeError"
proof (induction df)
  case Nil
  then show ?case by (simp add: holds_text_def)
next
  case (Cons p df)
  obtain l0 c0 where p: "p = (l0, c0)" by (cases p)
  show ?case
  proof (cases "text_cells c0")
    case True
    then have "series_sub c0 m = Inl TypeError"
      by (cases c0 rule: text_cells.cases) simp_all
    with p show ?thesis by simp
  next
    case False
    with Cons.prems p have "holds_text df" by (simp add: holds_text_def)
    from Cons.IH [OF this] p show ?thesis
      by (cases "series_sub c0 m") (auto dest: series_sub_error)
  qed
qed

subsection \<open>The normaliser on a column of finite numbers\<close>

text \<open>
  For \<open>lo \<le> x \<le> hi\<close> the quotient \<open>(x - lo) / (hi - lo)\<close> is NaN only when \<open>hi = lo\<close>
  (then \<open>x = lo\<close> too, and it is \<open>0 / 0\<close>); no infinity arises.
\<close>

lemma fillna_quotient:
  fixes x lo hi :: real
  assumes "lo \<le> x" "x \<le> hi"
  shows "(if fdiv (Fin (x - lo)) (Fin (hi - lo)) = NaN then Fin 0
          else fdiv (Fin (x - lo)) (Fin (hi - lo)))
         = Fin (if hi - lo = 0 then 0 else (x - lo) / (hi - lo))"
  using assms by auto

lemma fillna_quotients:
  fixes xs :: "real list"
  assumes "\<And>x. x \<in> set xs \<Longrightarrow> lo \<le> x \<and> x \<le> hi"
  shows "fillna (NumSeries (map (\<lambda>x. fdiv (Fin (x - lo)) (Fin (hi - lo))) xs)) (Fin 0)
         = NumSeries (map (\<lambda>x. Fin (if hi - lo = 0 then 0 else (x - lo) / (hi - lo))) xs)"
proof -
  have "map (\<lambda>x. if fdiv (Fin (x - lo)) (Fin (hi - lo)) = NaN then Fin 0
                   else fdiv (Fin (x - lo)) (Fin (hi - lo))) xs
        = map (\<lambda>x. Fin (if hi - lo = 0 then 0 else (x - lo) / (hi - lo))) xs"
  proof (rule map_cong [OF refl])
    fix x assume "x \<in> set xs"
    then have "lo \<le> x \<and> x \<le> hi" by (rule assms)
    then show "(if fdiv (Fin (x - lo)) (Fin (hi - lo)) = NaN then Fin 0
                else fdiv (Fin (x - lo)) (Fin (hi - lo)))
               = Fin (if hi - lo = 0 then 0 else (x - lo) / (hi - lo))"
      using fillna_quotient [of lo x hi] by blast
  qed
  then show ?thesis by (simp only: fillna.simps map_map comp_def)
qed

lemma normalize_lc_finite:
  assumes col: "map_of df c = Some (NumSeries (map Fin xs))"
    and ne: "xs \<noteq> []"
    and sub: "frame_sub df (SNum (Fin (Min (set xs)))) = Inr df'"
  shows "normalize_lc (PyFrame df) c =
         Inr (NumSeries (map (\<lambda>x. Fin (if Max (set xs) - Min (set xs) = 0 then 0
                else (x - Min (set xs)) / (Max (set xs) - Min (set xs)))) xs))"
proof -
  let ?lo = "Min (set xs)" and ?hi = "Max (set xs)"
  have mn: "min_mag (PyFrame df) c = Inr (SNum (Fin ?lo))"
    using col ne by (simp add: min_mag_def float_min_Fin)
  from frame_sub_lookup [OF sub col]
  have col': "map_of df' c = Some (NumSeries (map Fin (map (\<lambda>x. x - ?lo) xs)))"
    by (auto simp: comp_def)
  have mx: "max_mag (PyFrame df') c = Inr (SNum (Fin (?hi - ?lo)))"
    using col' ne by (simp add: max_mag_def float_max_Fin Max_shift del: map_map)
  have get: "getitem (PyFrame df) c = Inr (NumSeries (map Fin xs))"
    using col by simp
  have num: "series_sub (NumSeries (map Fin xs)) (SNum (Fin ?lo))
             = Inr (NumSeries (map (\<lambda>x. Fin (x - ?lo)) xs))"
    by (simp add: comp_def)
  have quo: "series_div (NumSeries (map (\<lambda>x. Fin (x - ?lo)) xs)) (SNum (Fin (?hi - ?lo)))
             = Inr (NumSeries (map (\<lambda>x. fdiv (Fin (x - ?lo)) (Fin (?hi - ?lo))) xs))"
    by (simp add: comp_def del: fdiv.simps)
  have fill: "fillna (NumSeries (map (\<lambda>x. fdiv (Fin (x - ?lo)) (Fin (?hi - ?lo))) xs)) (Fin 0)
      = NumSeries (map (\<lambda>x. Fin (if ?hi - ?lo = 0 then 0 else (x - ?lo) / (?hi - ?lo))) xs)"
    by (rule fillna_quotients) simp
  show ?thesis
    unfolding normalize_lc_def
    by (simp only: mn sub mx get num quo fill and_then_Inr pyobj_sub.simps)
qed

lemma normalize_lc_text:
  assumes col: "map_of df c = Some (NumSeries xs)" and held: "holds_text df"
  shows "normalize_lc (PyFrame df) c = Inl TypeError"
  using col frame_sub_text [OF held]
  by (simp add: normalize_lc_def min_mag_def)

lemma normalize_lc_empty:
  assumes col: "map_of df c = Some (NumSeries [])" and none: "\<not> holds_text df"
  shows "normalize_lc (PyFrame df) c = Inr (NumSeries [])"
proof -
  from frame_sub_no_text [OF none] obtain df' where
    sub: "frame_sub df (SNum NaN) = Inr df'" ..
  from frame_sub_lookup [OF sub col] have "map_of df' c = Some (NumSeries [])"
    by simp
  with col sub show ?thesis
    by (simp add: normalize_lc_def min_mag_def max_mag_def)
qed

lemma max_of_shifted_finite:
  assumes ne: "xs \<noteq> []"
  shows "max_of_shifted (NumSeries (map Fin xs))
         = Inr (SNum (Fin (Max (set xs) - Min (set xs))))"
proof -
  have "float_max (map Fin (map (\<lambda>x. x - Min (set xs)) xs))
        = Fin (Max (set xs) - Min (set xs))"
    using ne by (simp add: float_max_Fin Max_shift del: map_map)
  then show ?thesis
    using ne by (simp add: max_of_shifted_def float_min_Fin comp_def)
qed

subsection \<open>The literal two-step algorithm\<close>



subsection \<open>Normalising a constant lightcurve\<close>

text \<open>
  Claim C6, as the code has it.  Let no column of a table hold text, and let the
  magnitude column hold one and the same value in each of its \<open>n > 0\<close> rows.  Then
  \<open>normalize_lc\<close> returns \<open>n\<close> times 0.0: the shifted column is zero (or NaN, for
  a value that is not finite), so is its maximum, every quotient is NaN, and
  \<open>fillna\<close> turns each into 0.0.  The value may be any float64.
\<close>

theorem normalize_lc_constant:
  assumes none: "\<not> holds_text df"
    and col: "map_of df c = Some (NumSeries (replicate n v))"
    and n: "0 < n"
  shows "normalize_lc (PyFrame df) c = Inr (NumSeries (replicate n (Fin 0)))"
proof -
  have mn: "min_mag (PyFrame df) c = Inr (SNum v)"
    using col n by (simp add: min_mag_def float_min_replicate)
  from frame_sub_no_text [OF none] obtain df' where
    df': "frame_sub df (SNum v) = Inr df'" ..
  from frame_sub_lookup [OF df' col]
  have col': "map_of df' c = Some (NumSeries (replicate n (fsub v v)))"
    by simp
  have mx: "max_mag (PyFrame df') c = Inr (SNum (fsub v v))"
    using col' n by (simp add: max_mag_def float_max_replicate)
  show ?thesis
    using mn df' mx col
    by (simp add: normalize_lc_def fdiv_self_difference)
qed

text \<open>A table of times and magnitudes, the magnitude 5 in each of its three rows.\<close>

theorem normalize_lc_constant_witness:
  "\<not> holds_text [(''mjd'', NumSeries [Fin 10, Fin 20, Fin 30]),
                  (''mag'', NumSeries [Fin 5, Fin 5, Fin 5])]
   \<and> normalize_lc (PyFrame [(''mjd'', NumSeries [Fin 10, Fin 20, Fin 30]),
                            (''mag'', NumSeries [Fin 5, Fin 5, Fin 5])]) ''mag''
       = Inr (NumSeries [Fin 0, Fin 0, Fin 0])"
  using normalize_lc_constant [of "[(''mjd'', NumSeries [Fin 10, Fin 20, Fin 30]),
                          (''mag'', NumSeries [Fin 5, Fin 5, Fin 5])]" "''mag''" 3 "Fin 5"]
  by (simp add: holds_text_def numeral_3_eq_3)

text \<open>
  Without the condition on the other columns the claim fails: the table below has a
  constant magnitude column next to a column of band names, and \<open>df - min\<close> raises
  TypeError on the first band name before any quotient is formed.
\<close>

theorem normalize_lc_constant_counterexample:
  "normalize_lc (PyFrame [(''band'', StrSeries [''g'', ''g'']),
                          (''mag'', NumSeries [Fin 5, Fin 5])]) ''mag'' = Inl TypeError"
  by (simp add: normalize_lc_def min_mag_def float_min_def)

subsection \<open>The two denominators\<close>

lemma normalize_lc_single_pass:
  assumes col: "map_of df c = Some (NumSeries xs)" and none: "\<not> holds_text df"
  shows "normalize_lc (PyFrame df) c = single_pass_lc (PyFrame df) c"
    and "\<exists>r. normalize_lc (PyFrame df) c = Inr r"
proof -
  let ?m = "float_min xs"
  have mn: "min_mag (PyFrame df) c = Inr (SNum ?m)"
    using col by (simp add: min_mag_def)
  from frame_sub_no_text [OF none] obtain df' where
    sub: "frame_sub df (SNum ?m) = Inr df'" ..
  from frame_sub_lookup [OF sub col]
  have col': "map_of df' c = Some (NumSeries (map (\<lambda>x. fsub x ?m) xs))"
    by simp
  have mx: "max_mag (PyFrame df') c = Inr (SNum (fsub (float_max xs) ?m))"
    using col' by (simp add: max_mag_def float_max_shifted)
  have mx0: "max_mag (PyFrame df) c = Inr (SNum (float_max xs))"
    using col by (simp add: max_mag_def)
  have get: "getitem (PyFrame df) c = Inr (NumSeries xs)"
    using col by simp
  have two: "normalize_lc (PyFrame df) c
      = Inr (fillna (NumSeries (map (\<lambda>x. fdiv x (fsub (float_max xs) ?m))
               (map (\<lambda>x. fsub x ?m) xs))) (Fin 0))"
    unfolding normalize_lc_def
    by (simp only: mn sub mx get and_then_Inr pyobj_sub.simps series_sub.simps series_div.simps)
  have one: "single_pass_lc (PyFrame df) c
      = Inr (fillna (NumSeries (map (\<lambda>x. fdiv x (fsub (float_max xs) ?m))
               (map (\<lambda>x. fsub x ?m) xs))) (Fin 0))"
    unfolding single_pass_lc_def
    by (simp only: mn mx0 get and_then_Inr scalar_sub.simps series_sub.simps series_div.simps)
  from two one show "normalize_lc (PyFrame df) c = single_pass_lc (PyFrame df) c"
    by simp
  from two show "\<exists>r. normalize_lc (PyFrame df) c = Inr r" by blast
qed



subsection \<open>The range of the normalised lightcurve\<close>

text \<open>
  On a table that holds no text the function returns, whatever the cells of the
  magnitude column are: row by row the quotient of the shifted value by the range of
  the column, and 0 where that quotient is NaN.
\<close>

lemma normalize_lc_number_column:
  assumes col: "map_of df c = Some (NumSeries xs)" and none: "\<not> holds_text df"
  shows "normalize_lc (PyFrame df) c
      = Inr (fillna (NumSeries (map (\<lambda>x. fdiv (fsub x (float_min xs))
               (fsub (float_max xs) (float_min xs))) xs)) (Fin 0))"
proof -
  let ?m = "float_min xs"
  have mn: "min_mag (PyFrame df) c = Inr (SNum ?m)"
    using col by (simp add: min_mag_def)
  from frame_sub_no_text [OF none] obtain df' where
    sub: "frame_sub df (SNum ?m) = Inr df'" ..
  from frame_sub_lookup [OF sub col]
  have col': "map_of df' c = Some (NumSeries (map (\<lambda>x. fsub x ?m) xs))"
    by simp
  have mx: "max_mag (PyFrame df') c = Inr (SNum (fsub (float_max xs) ?m))"
    using col' by (simp add: max_mag_def float_max_shifted)
  have get: "getitem (PyFrame df) c = Inr (NumSeries xs)"
    using col by simp
  have "normalize_lc (PyFrame df) c
      = Inr (fillna (NumSeries (map (\<lambda>x. fdiv x (fsub (float_max xs) ?m))
               (map (\<lambda>x. fsub x ?m) xs))) (Fin 0))"
    unfolding normalize_lc_def
    by (simp only: mn sub mx get and_then_Inr pyobj_sub.simps series_sub.simps series_div.simps)
  then show ?thesis by (simp only: map_map comp_def)
qed

lemma fillna_unit_value:
  assumes "lo < hi" and "x = NaN \<or> (\<exists>r. x = Fin r)"
  shows "(if fdiv (fsub x (Fin lo)) (fsub (Fin hi) (Fin lo)) = NaN then Fin 0
          else fdiv (fsub x (Fin lo)) (fsub (Fin hi) (Fin lo)))
         = Fin (unit_value lo hi x)"
  using assms by auto




text \<open>
  An infinite magnitude is outside the claim as well: it becomes the maximum of the
  shifted column, every finite row is divided by it, and no row reaches 1.
\<close>

lemma normalize_lc_infinite_magnitude:
  "normalize_lc (PyFrame [(''mag'', NumSeries [Fin 0, Fin 1, PosInf])]) ''mag''
   = Inr (NumSeries [Fin 0, Fin 0, Fin 0])"
  by (simp add: normalize_lc_def min_mag_def max_mag_def float_min_def float_max_def
        fmin2_def fmax2_def)

subsection \<open>The mean between the extremes\<close>




subsection \<open>The reducers on text\<close>

text \<open>
  Claim C5, as the code has it.  Handed a plain string for the table, each of
  \<open>min_mag\<close>, \<open>max_mag\<close> and \<open>mean_mag\<close> raises TypeError.  Handed a table whose
  named column holds text, \<open>mean_mag\<close> raises TypeError, but \<open>max_mag\<close> and \<open>min_mag\<close>
  raise nothing: they return the greatest and the least string of the column.  No
  text is turned into a number on the way.
\<close>

theorem reducers_on_text:
  "(min_mag (PyStr s) c = Inl TypeError \<and> max_mag (PyStr s) c = Inl TypeError
      \<and> mean_mag (PyStr s) c = Inl TypeError)
   \<and> (map_of df c = Some (StrSeries (t # ts)) \<longrightarrow>
        mean_mag (PyFrame df) c = Inl TypeError
      \<and> max_mag (PyFrame df) c = Inr (SStr (Max (set (t # ts))))
      \<and> min_mag (PyFrame df) c = Inr (SStr (Min (set (t # ts)))))"
  by (simp add: min_mag_def max_mag_def mean_mag_def Max.set_eq_fold Min.set_eq_fold
           del: set_simps)

theorem reducers_on_text_witness:
  "map_of [(''b'', StrSeries [''x'', ''y''])] ''b'' = Some (StrSeries [''x'', ''y''])
   \<and> max_mag (PyStr ''string'') ''b'' = Inl TypeError
   \<and> mean_mag (PyFrame [(''b'', StrSeries [''x'', ''y''])]) ''b'' = Inl TypeError
   \<and> min_mag (PyFrame [(''b'', StrSeries [''x'', ''y''])]) ''b'' = Inr (SStr ''x'')"
  using reducers_on_text [of "''string''" "''b''" "[(''b'', StrSeries [''x'', ''y''])]" "''x''" "[''y'']"]
  by simp

text \<open>
  The claim that every reducer fails on a text column is false of \<open>max_mag\<close>: on a
  column of band names it returns the name that sorts last.
\<close>

theorem reducers_on_text_counterexample:
  "max_mag (PyFrame [(''band'', StrSeries [''r'', ''g'', ''i''])]) ''band'' = Inr (SStr ''r'')"
  by (simp add: max_mag_def)

subsection \<open>The loop over the bands\<close>

lemma reducers_numbers:
  assumes "max_mag data c = Inr mx" and "mean_mag data c = Inr me" and "min_mag data c = Inr mn"
  shows "\<exists>a b d. mx = SNum a \<and> me = SNum b \<and> mn = SNum d"
proof (cases data)
  case (PyStr s)
  with assms(1) show ?thesis by (simp add: max_mag_def)
next
  case (PyFrame df)
  show ?thesis
  proof (cases "map_of df c")
    case None
    with PyFrame assms(1) show ?thesis by (simp add: max_mag_def)
  next
    case (Some col)
    with PyFrame assms show ?thesis
      by (cases col rule: series_mean.cases)
         (auto simp: max_mag_def mean_mag_def min_mag_def)
  qed
qed

lemma band_stat_Inr:
  "band_stat lc b c = Inr st \<longleftrightarrow>
     (\<exists>data mx me mn. lc b = Some data \<and> max_mag data c = Inr mx \<and> mean_mag data c = Inr me
        \<and> min_mag data c = Inr mn \<and> st = [''max'' \<mapsto> mx, ''mean'' \<mapsto> me, ''min'' \<mapsto> mn])"
  by (cases "lc b") (auto simp: band_stat_def dict_getitem_def and_then_eq_Inr)

lemma band_stat_missing: "lc b = None \<Longrightarrow> band_stat lc b c = Inl (KeyError b)"
  by (simp add: band_stat_def dict_getitem_def)

text \<open>
  The loop invariant: once the loop has run over \<open>bands\<close>, each of them has its
  statistics in the dictionary and every other entry is as it was.
\<close>

lemma calc_stats_loop_Inr:
  "calc_stats_loop lc bands c stats = Inr fr \<Longrightarrow>
     (\<forall>b\<in>set bands. \<exists>st. band_stat lc b c = Inr st \<and> fr b = Some st)
   \<and> (\<forall>b. b \<notin> set bands \<longrightarrow> fr b = stats b)"
proof (induction bands arbitrary: stats)
  case Nil
  then show ?case by simp
next
  case (Cons b bands)
  from Cons.prems obtain st where st: "band_stat lc b c = Inr st"
    and rest: "calc_stats_loop lc bands c (stats(b \<mapsto> st)) = Inr fr"
    by (cases "band_stat lc b c") simp_all
  from Cons.IH [OF rest]
  have inside: "\<forall>b'\<in>set bands. \<exists>st'. band_stat lc b' c = Inr st' \<and> fr b' = Some st'"
    and outside: "\<forall>b'. b' \<notin> set bands \<longrightarrow> fr b' = (stats(b \<mapsto> st)) b'"
    by blast+
  have "fr b = Some st"
  proof (cases "b \<in> set bands")
    case True
    with inside st show ?thesis by auto
  next
    case False
    with outside show ?thesis by simp
  qed
  with st inside outside show ?case by auto
qed

lemma calc_stats_loop_total:
  "\<forall>b\<in>set bands. \<exists>st. band_stat lc b c = Inr st \<Longrightarrow>
   \<exists>fr. calc_stats_loop lc bands c stats = Inr fr"
  by (induction bands arbitrary: stats) auto

lemma calc_stats_loop_first_failure:
  "\<forall>p\<in>set pre. \<exists>st. band_stat lc p c = Inr st \<Longrightarrow> band_stat lc b c = Inl e \<Longrightarrow>
   calc_stats_loop lc (pre @ b # post) c stats = Inl e"
  by (induction pre arbitrary: stats) auto

lemma calc_stats_eq_Inr:
  "calc_stats lc bands c = Inr fr \<longleftrightarrow> calc_stats_loop lc bands c Map.empty = Inr fr"
  by (simp add: calc_stats_def from_records_def and_then_eq_Inr)

subsection \<open>The statistics of the bands\<close>

text \<open>
  Claim C2.  \<open>calc_stats\<close> returns a result exactly when every band of \<open>bands\<close> is a
  key of \<open>lc\<close> and the three reducers succeed on its table.  The result then has
  the bands of \<open>bands\<close> for its keys, and under each band \<open>b\<close> the entries \<open>max\<close>,
  \<open>mean\<close> and \<open>min\<close>, which are numbers: the values of \<open>max_mag\<close>, \<open>mean_mag\<close> and
  \<open>min_mag\<close> on \<open>lc[b]\<close>.
\<close>

theorem calc_stats_result:
  "((\<exists>fr. calc_stats lc bands c = Inr fr) \<longleftrightarrow>
      (\<forall>b\<in>set bands. \<exists>data mx me mn. lc b = Some data \<and> max_mag data c = Inr mx
          \<and> mean_mag data c = Inr me \<and> min_mag data c = Inr mn))
   \<and> (\<forall>fr. calc_stats lc bands c = Inr fr \<longrightarrow>
        dom fr = set bands
      \<and> (\<forall>b\<in>set bands. \<exists>data mx me mn. lc b = Some data
            \<and> max_mag data c = Inr (SNum mx) \<and> mean_mag data c = Inr (SNum me)
            \<and> min_mag data c = Inr (SNum mn)
            \<and> fr b = Some [''max'' \<mapsto> SNum mx, ''mean'' \<mapsto> SNum me, ''min'' \<mapsto> SNum mn]))"
proof (intro conjI allI impI iffI)
  assume "\<exists>fr. calc_stats lc bands c = Inr fr"
  then obtain fr where "calc_stats_loop lc bands c Map.empty = Inr fr"
    by (auto simp: calc_stats_eq_Inr)
  from calc_stats_loop_Inr [OF this]
  have "\<forall>b\<in>set bands. \<exists>st. band_stat lc b c = Inr st" by blast
  then show "\<forall>b\<in>set bands. \<exists>data mx me mn. lc b = Some data \<and> max_mag data c = Inr mx
          \<and> mean_mag data c = Inr me \<and> min_mag data c = Inr mn"
    unfolding band_stat_Inr by blast
next
  assume "\<forall>b\<in>set bands. \<exists>data mx me mn. lc b = Some data \<and> max_mag data c = Inr mx
          \<and> mean_mag data c = Inr me \<and> min_mag data c = Inr mn"
  then have "\<forall>b\<in>set bands. \<exists>st. band_stat lc b c = Inr st"
    unfolding band_stat_Inr by blast
  from calc_stats_loop_total [OF this]
  show "\<exists>fr. calc_stats lc bands c = Inr fr"
    by (simp add: calc_stats_eq_Inr)
next
  fix fr assume "calc_stats lc bands c = Inr fr"
  then have loop: "calc_stats_loop lc bands c Map.empty = Inr fr"
    by (simp add: calc_stats_eq_Inr)
  from calc_stats_loop_Inr [OF loop]
  have inside: "\<forall>b\<in>set bands. \<exists>st. band_stat lc b c = Inr st \<and> fr b = Some st"
    and outside: "\<forall>b. b \<notin> set bands \<longrightarrow> fr b = None"
    by simp_all
  show "dom fr = set bands"
  proof (rule set_eqI)
    fix b
    show "b \<in> dom fr \<longleftrightarrow> b \<in> set bands"
      using inside outside by (cases "b \<in> set bands") auto
  qed
  show "\<forall>b\<in>set bands. \<exists>data mx me mn. lc b = Some data
            \<and> max_mag data c = Inr (SNum mx) \<and> mean_mag data c = Inr (SNum me)
            \<and> min_mag data c = Inr (SNum mn)
            \<and> fr b = Some [''max'' \<mapsto> SNum mx, ''mean'' \<mapsto> SNum me, ''min'' \<mapsto> SNum mn]"
  proof
    fix b assume "b \<in> set bands"
    with inside obtain st where st: "band_stat lc b c = Inr st" and fr: "fr b = Some st"
      by blast
    from st obtain data mx me mn where data: "lc b = Some data"
      and mx: "max_mag data c = Inr mx" and me: "mean_mag data c = Inr me"
      and mn: "min_mag data c = Inr mn"
      and st_eq: "st = [''max'' \<mapsto> mx, ''mean'' \<mapsto> me, ''min'' \<mapsto> mn]"
      unfolding band_stat_Inr by blast
    from reducers_numbers [OF mx me mn] obtain a b' d where
      "mx = SNum a" "me = SNum b'" "mn = SNum d" by blast
    with data mx me mn st_eq fr
    show "\<exists>data mx me mn. lc b = Some data
            \<and> max_mag data c = Inr (SNum mx) \<and> mean_mag data c = Inr (SNum me)
            \<and> min_mag data c = Inr (SNum mn)
            \<and> fr b = Some [''max'' \<mapsto> SNum mx, ''mean'' \<mapsto> SNum me, ''min'' \<mapsto> SNum mn]"
      by blast
  qed
qed

text \<open>Two bands, the lightcurve under \<open>g\<close> and the test table under \<open>r\<close>, column \<open>b\<close>.\<close>

theorem calc_stats_result_witness:
  "\<exists>fr. calc_stats [''g'' \<mapsto> PyFrame lightcurve_table, ''r'' \<mapsto> PyFrame mixed_table]
           [''g'', ''r''] ''b'' = Inr fr
        \<and> dom fr = {''g'', ''r''}
        \<and> fr ''g'' = Some [''max'' \<mapsto> SNum (Fin 9), ''mean'' \<mapsto> SNum (Fin (19 / 4)),
                           ''min'' \<mapsto> SNum (Fin 2)]"
proof -
  let ?lc = "[''g'' \<mapsto> PyFrame lightcurve_table, ''r'' \<mapsto> PyFrame mixed_table]"
  have g: "max_mag (PyFrame lightcurve_table) ''b'' = Inr (SNum (Fin 9))"
    "mean_mag (PyFrame lightcurve_table) ''b'' = Inr (SNum (Fin (19 / 4)))"
    "min_mag (PyFrame lightcurve_table) ''b'' = Inr (SNum (Fin 2))"
    by (simp_all add: lightcurve_table_def max_mag_def mean_mag_def min_mag_def float_max_def
          float_min_def float_mean_def float_sum_def fmax2_def fmin2_def)
  have r: "max_mag (PyFrame mixed_table) ''b'' = Inr (SNum (Fin 8))"
    "mean_mag (PyFrame mixed_table) ''b'' = Inr (SNum (Fin (17 / 3)))"
    "min_mag (PyFrame mixed_table) ''b'' = Inr (SNum (Fin 4))"
    by (simp_all add: mixed_table_def max_mag_def mean_mag_def min_mag_def float_max_def
          float_min_def float_mean_def float_sum_def fmax2_def fmin2_def)
  note result = calc_stats_result [of ?lc "[''g'', ''r'']" "''b''"]
  have "\<forall>b\<in>set [''g'', ''r'']. \<exists>data mx me mn. ?lc b = Some data
          \<and> max_mag data ''b'' = Inr mx \<and> mean_mag data ''b'' = Inr me
          \<and> min_mag data ''b'' = Inr mn"
    using g r by simp
  with result obtain fr where fr: "calc_stats ?lc [''g'', ''r''] ''b'' = Inr fr"
    by blast
  with result have keys: "dom fr = set [''g'', ''r'']"
    and cells: "\<forall>b\<in>set [''g'', ''r'']. \<exists>data mx me mn. ?lc b = Some data
            \<and> max_mag data ''b'' = Inr (SNum mx) \<and> mean_mag data ''b'' = Inr (SNum me)
            \<and> min_mag data ''b'' = Inr (SNum mn)
            \<and> fr b = Some [''max'' \<mapsto> SNum mx, ''mean'' \<mapsto> SNum me, ''min'' \<mapsto> SNum mn]"
    by blast+
  from cells g have "fr ''g'' = Some [''max'' \<mapsto> SNum (Fin 9), ''mean'' \<mapsto> SNum (Fin (19 / 4)),
                           ''min'' \<mapsto> SNum (Fin 2)]"
    by simp
  with fr keys show ?thesis by auto
qed

subsection \<open>A band that is missing\<close>

text \<open>
  Claim C4, as the code has it.  If a band of \<open>bands\<close> is not a key of \<open>lc\<close>, then
  \<open>calc_stats\<close> returns no result.  What it raises is the KeyError of that band if
  the reducers succeed on every band listed before it; the loop takes the bands in
  order, so an earlier band on which a reducer fails ends the call with its own
  error first.
\<close>

theorem calc_stats_missing_band:
  "(b \<in> set bands \<and> lc b = None \<longrightarrow> (\<exists>e. calc_stats lc bands c = Inl e))
   \<and> (lc b = None \<and> (\<forall>p\<in>set pre. \<exists>st. band_stat lc p c = Inr st) \<longrightarrow>
        calc_stats lc (pre @ b # post) c = Inl (KeyError b))"
proof (intro conjI impI)
  assume "b \<in> set bands \<and> lc b = None"
  then have b: "b \<in> set bands" and missing: "band_stat lc b c = Inl (KeyError b)"
    by (simp_all add: band_stat_missing)
  show "\<exists>e. calc_stats lc bands c = Inl e"
  proof (cases "calc_stats lc bands c")
    case (Inl e)
    then show ?thesis by blast
  next
    case (Inr fr)
    then have "calc_stats_loop lc bands c Map.empty = Inr fr"
      by (simp add: calc_stats_eq_Inr)
    from calc_stats_loop_Inr [OF this] b missing show ?thesis by auto
  qed
next
  assume "lc b = None \<and> (\<forall>p\<in>set pre. \<exists>st. band_stat lc p c = Inr st)"
  then have "calc_stats_loop lc (pre @ b # post) c Map.empty = Inl (KeyError b)"
    by (intro calc_stats_loop_first_failure) (simp_all add: band_stat_missing)
  then show "calc_stats lc (pre @ b # post) c = Inl (KeyError b)"
    by (simp add: calc_stats_def)
qed

text \<open>The scenario of the specification: bands \<open>g\<close> and \<open>r\<close>, and no \<open>r\<close> in \<open>lc\<close>.\<close>

theorem calc_stats_missing_band_witness:
  "[''g'' \<mapsto> PyFrame lightcurve_table] ''r'' = None
   \<and> (\<exists>st. band_stat [''g'' \<mapsto> PyFrame lightcurve_table] ''g'' ''b'' = Inr st)
   \<and> calc_stats [''g'' \<mapsto> PyFrame lightcurve_table] [''g'', ''r''] ''b'' = Inl (KeyError ''r'')"
proof -
  let ?lc = "[''g'' \<mapsto> PyFrame lightcurve_table]"
  have absent: "?lc ''r'' = None" by simp
  have g: "\<exists>st. band_stat ?lc ''g'' ''b'' = Inr st"
    by (simp add: band_stat_def dict_getitem_def lightcurve_table_def max_mag_def mean_mag_def
          min_mag_def)
  with absent calc_stats_missing_band [of "''r''" "[]" ?lc "''b''" "[''g'']" "[]"]
  have "calc_stats ?lc [''g'', ''r''] ''b'' = Inl (KeyError ''r'')" by simp
  with absent g show ?thesis by blast
qed

text \<open>
  The error need not be the KeyError: here the magnitudes of band \<open>g\<close> are text,
  \<open>mean_mag\<close> raises TypeError on them, and the missing band \<open>r\<close> is never looked up.
\<close>

theorem calc_stats_missing_band_counterexample:
  "calc_stats [''g'' \<mapsto> PyFrame [(''mag'', StrSeries [''bright'', ''faint''])]]
     [''g'', ''r''] ''mag'' = Inl TypeError"
  by (simp add: calc_stats_def band_stat_def dict_getitem_def max_mag_def mean_mag_def)

subsection \<open>The module on a store: nothing is written over\<close>

lemma extends_refl [simp]: "extends s s"
  by (simp add: extends_def)

lemma take_prefix_trans:
  "take (length xs) ys = xs \<Longrightarrow> take (length ys) zs = ys \<Longrightarrow> take (length xs) zs = xs"
  by (metis append_eq_conv_conj append_take_drop_id append.assoc)

lemma extends_trans: "extends s s' \<Longrightarrow> extends s' s'' \<Longrightarrow> extends s s''"
  unfolding extends_def by (blast intro: take_prefix_trans)

lemma extends_table:
  "extends s s' \<Longrightarrow> r < length (tables s) \<Longrightarrow> tables s' ! r = tables s ! r"
  unfolding extends_def by (metis nth_take)

text \<open>Calls that only allocate compose to a call that only allocates.\<close>

lemma allocates_only_then:
  assumes "allocates_only m" and "\<And>x. allocates_only (f x)"
  shows "allocates_only (st_then m f)"
  unfolding allocates_only_def
proof
  fix s
  obtain r s' where ms: "m s = (r, s')" by (cases "m s")
  from assms(1) ms have one: "extends s s'"
    by (auto simp: allocates_only_def dest: spec [of _ s])
  show "extends s (snd (st_then m f s))"
  proof (cases r)
    case (Inl e)
    with ms one show ?thesis by (simp add: st_then_def)
  next
    case (Inr x)
    from assms(2) [of x] have "extends s' (snd (f x s'))" by (simp add: allocates_only_def)
    with one have "extends s (snd (f x s'))" by (rule extends_trans)
    with ms Inr show ?thesis by (simp add: st_then_def)
  qed
qed

lemma allocates_only_primitives:
  "allocates_only (table_getitem data key)"
  "allocates_only (column_max col)"
  "allocates_only (column_min col)"
  "allocates_only (column_mean col)"
  "allocates_only (table_sub data m)"
  "allocates_only (column_sub col m)"
  "allocates_only (column_div col m)"
  "allocates_only (column_fillna col v)"
  by (auto simp: allocates_only_def table_getitem_def column_max_def column_min_def
        column_mean_def table_sub_def column_sub_def column_div_def column_fillna_def
        new_column_def new_table_def extends_def split: sum.splits)

lemma allocates_only_reducers:
  "allocates_only (mean_mag_st data c)"
  "allocates_only (max_mag_st data c)"
  "allocates_only (min_mag_st data c)"
  by (simp_all add: mean_mag_st_def max_mag_st_def min_mag_st_def allocates_only_then
        allocates_only_primitives)

lemma allocates_only_normalize: "allocates_only (normalize_lc_st df c)"
  unfolding normalize_lc_st_def
  by (intro allocates_only_then allocates_only_primitives allocates_only_reducers)

text \<open>The functions over the store compute what the functions over values compute.\<close>

lemma min_mag_st_result: "fst (min_mag_st data c s) = min_mag (tables s ! data) c"
  by (simp add: min_mag_st_def min_mag_def st_then_def table_getitem_def new_column_def
        column_min_def and_then_def split: sum.splits)

lemma max_mag_st_result: "fst (max_mag_st data c s) = max_mag (tables s ! data) c"
  by (simp add: max_mag_st_def max_mag_def st_then_def table_getitem_def new_column_def
        column_max_def and_then_def split: sum.splits)

lemma mean_mag_st_result: "fst (mean_mag_st data c s) = mean_mag (tables s ! data) c"
  by (simp add: mean_mag_st_def mean_mag_def st_then_def table_getitem_def new_column_def
        column_mean_def and_then_def split: sum.splits)

lemma reducer_tables:
  "tables (snd (min_mag_st data c s)) = tables s"
  "tables (snd (max_mag_st data c s)) = tables s"
  by (simp_all add: min_mag_st_def max_mag_st_def st_then_def table_getitem_def new_column_def
        column_min_def column_max_def split: sum.splits)

lemma min_mag_st_cases:
  obtains s1 where "min_mag_st data c s = (min_mag (tables s ! data) c, s1)"
    and "tables s1 = tables s"
  using min_mag_st_result [of data c s] reducer_tables(1) [of data c s]
  by (cases "min_mag_st data c s") auto

lemma max_mag_st_cases:
  obtains s1 where "max_mag_st data c s = (max_mag (tables s ! data) c, s1)"
    and "tables s1 = tables s"
  using max_mag_st_result [of data c s] reducer_tables(2) [of data c s]
  by (cases "max_mag_st data c s") auto

lemma normalize_lc_st_result:
  assumes "df < length (tables s)"
  shows "result_column (normalize_lc_st df c s) = normalize_lc (tables s ! df) c
       \<and> tables (snd (normalize_lc_st df c s)) =
           (case and_then (min_mag (tables s ! df) c) (pyobj_sub (tables s ! df)) of
              Inl e \<Rightarrow> tables s
            | Inr shifted \<Rightarrow> tables s @ [shifted])"
proof -
  obtain s1 where m1: "min_mag_st df c s = (min_mag (tables s ! df) c, s1)"
    and t1: "tables s1 = tables s"
    by (rule min_mag_st_cases)
  show ?thesis
  proof (cases "min_mag (tables s ! df) c")
    case (Inl e)
    with m1 t1 show ?thesis
      by (simp add: normalize_lc_st_def normalize_lc_def st_then_def result_column_def)
  next
    case mn: (Inr mn)
    show ?thesis
    proof (cases "pyobj_sub (tables s ! df) mn")
      case (Inl e)
      with m1 mn t1 show ?thesis
        by (simp add: normalize_lc_st_def normalize_lc_def st_then_def
              result_column_def table_sub_def)
    next
      case sh: (Inr shifted)
      let ?s2 = "s1\<lparr>tables := tables s @ [shifted]\<rparr>"
      obtain s3 where m3: "max_mag_st (length (tables s)) c ?s2
            = (max_mag (tables ?s2 ! length (tables s)) c, s3)"
        and t3: "tables s3 = tables ?s2"
        by (rule max_mag_st_cases)
      then have m3': "max_mag_st (length (tables s)) c ?s2 = (max_mag shifted c, s3)"
        and t3': "tables s3 = tables s @ [shifted]"
        by simp_all
      show ?thesis
      proof (cases "max_mag shifted c")
        case (Inl e)
        with m1 mn sh t1 m3' t3' show ?thesis
          by (simp add: normalize_lc_st_def normalize_lc_def st_then_def
                result_column_def table_sub_def new_table_def)
      next
        case mx: (Inr mx)
        from assms have same: "(tables s @ [shifted]) ! df = tables s ! df"
          by (simp add: nth_append)
        from m1 mn sh mx t1 m3' t3' same show ?thesis
          by (simp add: normalize_lc_st_def normalize_lc_def st_then_def
                result_column_def table_sub_def new_table_def table_getitem_def new_column_def
                column_sub_def column_div_def column_fillna_def and_then_def nth_append
                split: sum.splits)
      qed
    qed
  qed
qed

text \<open>
  Claim C9.  Let \<open>df\<close> refer to a table of the store.  Each of \<open>min_mag\<close>,
  \<open>max_mag\<close>, \<open>mean_mag\<close> and \<open>normalize_lc\<close> leaves a store that extends the one it
  was called in: every table and every column that was there is there still, as it
  was, the argument included.  Each computes the value the function over values
  computes.  The shifted table of \<open>normalize_lc\<close> is a new table at the end of the
  store, built when the minimum and the subtraction succeed, and no table is added
  otherwise.
\<close>

theorem arguments_unchanged:
  assumes valid: "df < length (tables s)"
  shows "extends s (snd (min_mag_st df c s)) \<and> extends s (snd (max_mag_st df c s))
       \<and> extends s (snd (mean_mag_st df c s)) \<and> extends s (snd (normalize_lc_st df c s))
       \<and> tables (snd (min_mag_st df c s)) ! df = tables s ! df
       \<and> tables (snd (max_mag_st df c s)) ! df = tables s ! df
       \<and> tables (snd (mean_mag_st df c s)) ! df = tables s ! df
       \<and> tables (snd (normalize_lc_st df c s)) ! df = tables s ! df
       \<and> fst (min_mag_st df c s) = min_mag (tables s ! df) c
       \<and> fst (max_mag_st df c s) = max_mag (tables s ! df) c
       \<and> fst (mean_mag_st df c s) = mean_mag (tables s ! df) c
       \<and> result_column (normalize_lc_st df c s) = normalize_lc (tables s ! df) c
       \<and> tables (snd (normalize_lc_st df c s)) =
           (case and_then (min_mag (tables s ! df) c) (pyobj_sub (tables s ! df)) of
              Inl e \<Rightarrow> tables s
            | Inr shifted \<Rightarrow> tables s @ [shifted])"
proof -
  have ext: "extends s (snd (min_mag_st df c s))" "extends s (snd (max_mag_st df c s))"
    "extends s (snd (mean_mag_st df c s))" "extends s (snd (normalize_lc_st df c s))"
    using allocates_only_reducers [of df c] allocates_only_normalize [of df c]
    by (simp_all add: allocates_only_def)
  from ext valid have same:
    "tables (snd (min_mag_st df c s)) ! df = tables s ! df"
    "tables (snd (max_mag_st df c s)) ! df = tables s ! df"
    "tables (snd (mean_mag_st df c s)) ! df = tables s ! df"
    "tables (snd (normalize_lc_st df c s)) ! df = tables s ! df"
    by (simp_all add: extends_table)
  from ext same min_mag_st_result [of df c s] max_mag_st_result [of df c s]
    mean_mag_st_result [of df c s] normalize_lc_st_result [OF valid, of c]
  show ?thesis by blast
qed

text \<open>A store with the lightcurve as its only table, and no column yet.\<close>

theorem arguments_unchanged_witness:
  "0 < length (tables \<lparr>tables = [PyFrame lightcurve_table], columns = []\<rparr>)
   \<and> tables (snd (normalize_lc_st 0 ''b'' \<lparr>tables = [PyFrame lightcurve_table], columns = []\<rparr>)) ! 0
       = PyFrame lightcurve_table
   \<and> length (tables (snd (normalize_lc_st 0 ''b''
        \<lparr>tables = [PyFrame lightcurve_table], columns = []\<rparr>))) = 2
   \<and> result_column (normalize_lc_st 0 ''b'' \<lparr>tables = [PyFrame lightcurve_table], columns = []\<rparr>)
       = Inr (NumSeries [Fin 1, Fin (2 / 7), Fin 0, Fin (2 / 7)])"
proof -
  let ?s = "\<lparr>tables = [PyFrame lightcurve_table], columns = []\<rparr>"
  have valid: "0 < length (tables ?s)" by simp
  have pure: "normalize_lc (PyFrame lightcurve_table) ''b''
       = Inr (NumSeries [Fin 1, Fin (2 / 7), Fin 0, Fin (2 / 7)])"
    by (simp add: lightcurve_table_def normalize_lc_def min_mag_def max_mag_def float_min_def
          float_max_def fmin2_def fmax2_def)
  have shifted: "\<exists>t. and_then (min_mag (PyFrame lightcurve_table) ''b'')
       (pyobj_sub (PyFrame lightcurve_table)) = Inr t"
    by (simp add: lightcurve_table_def min_mag_def float_min_def fmin2_def)
  from arguments_unchanged [OF valid, of "''b''"] pure shifted valid
  show ?thesis by auto
qed

end
